theory Spec2Isabelle
  imports
    Complex_Main
    "HOL-Library.Multiset"
    "HOL-Library.Char_ord"
    "HOL-Library.List_Lexorder"
begin

section \<open>The electrification forecast dashboard\<close>

text \<open>
  The program is one Streamlit script, \<^verbatim>\<open>kubeflow2-app.py\<close>, executed top to bottom on
  every interaction. The embedding below follows the script section by section. The
  collaborators it calls (pandas, the widgets, the plotting modules and the ARIMA
  estimator) are not part of the repository; each one is either a parameter of the model
  or a function whose documented behaviour is written out, and the place says which.

  Numbers: Python integers are \<^typ>\<open>int\<close>; where the script computes with a 64-bit
  numpy integer, the wrap-around is written out. The metric values of the table are
  floating-point numbers that the script never computes with: it hands them to the
  plotting calls, to pandas and to the estimator. They are modelled by the real numbers
  they denote, and the one floating-point computation on them, the mean of the pivot,
  is a parameter. The forecast values, which the script compares with 90 and formats,
  have a type of their own that keeps the values of a double that are no real number.
\<close>

subsection \<open>Exceptions\<close>

text \<open>
  An uncaught Python exception ends the run. Only the exceptions the script can raise by
  itself are distinguished; \<open>LibraryError\<close> stands for anything raised inside a
  collaborator (a malformed CSV file, an ARIMA fit that fails).
\<close>

datatype error =
    NameError string
  | KeyError string
  | TypeError
  | IndexError
  | ValueError
  | LibraryError string

subsection \<open>The data frame\<close>

text \<open>
  A row holds the cells the script reads: the country, the year, and the three metric
  columns the metric selector offers. The schema of the specification fixes their types
  (string, integer, number). Whether a label is present in the table is recorded in
  \<open>columns\<close>, the list of column labels in file order: indexing a table by a label that
  is absent raises \<open>KeyError\<close>. The model covers tables in which none of these five
  labels occurs twice; cells of another type, missing cells and further columns are
  outside it. A string is the list of the bytes of its UTF-8 encoding.
\<close>

record row =
  country :: string
  year :: int
  electricity_access :: real
  rural_access :: real
  urban_access :: real

record dataframe =
  columns :: "string list"
  rows :: "row list"

text \<open>
  The metric selector offers a fixed list of three labels,
  \<^verbatim>\<open>["electricity_access", "rural_access", "urban_access"]\<close>; \<open>label\<close> is the string the
  script indexes the table with, \<open>metric\<close> the cell of a row under that label.
\<close>

datatype access_type = Electricity_access | Rural_access | Urban_access

fun label :: "access_type \<Rightarrow> string" where
  "label Electricity_access = ''electricity_access''"
| "label Rural_access = ''rural_access''"
| "label Urban_access = ''urban_access''"

fun metric :: "access_type \<Rightarrow> row \<Rightarrow> real" where
  "metric Electricity_access r = electricity_access r"
| "metric Rural_access r = rural_access r"
| "metric Urban_access r = urban_access r"

subsection \<open>pandas\<close>

text \<open>
  The three things the script leaves to pandas and that are not written out below are
  parameters, gathered in one record as the module \<^verbatim>\<open>pd\<close> gathers them:
  \<^item> \<open>read_csv\<close> is \<^verbatim>\<open>pd.read_csv\<close>: it yields a table or raises;
  \<^item> \<open>str_lower\<close> is what \<^verbatim>\<open>.str.lower()\<close> does to one label, that is Python's
    \<^verbatim>\<open>str.lower\<close>, which lowercases every cased letter of Unicode and may change the
    length of a string;
  \<^item> \<open>mean\<close> is the floating-point mean that the default \<^verbatim>\<open>aggfunc="mean"\<close> of
    \<^verbatim>\<open>pivot_table\<close> computes of the values of a group, listed in the order of their
    rows.
\<close>

record 'f pandas =
  read_csv :: "'f \<Rightarrow> error + dataframe"
  str_lower :: "string \<Rightarrow> string"
  mean :: "real list \<Rightarrow> real"

subsection \<open>Data loading\<close>

text \<open>
  \<^verbatim>\<open>
  @st.cache_data
  def load_data(file):
      df = pd.read_csv(file)
      df.columns = df.columns.str.lower()
      return df
  \<close>
  The cache decorator memoises a pure function and does not change its result.
\<close>

definition load_data :: "'f pandas \<Rightarrow> 'f \<Rightarrow> error + dataframe" where
  "load_data pd file =
     (case read_csv pd file of
        Inl e \<Rightarrow> Inl e
      | Inr df \<Rightarrow> Inr (df\<lparr>columns := map (str_lower pd) (columns df)\<rparr>))"

text \<open>
  What \<^verbatim>\<open>str.lower\<close> does to a label made of ASCII characters only: the letters \<open>A\<close> to
  \<open>Z\<close> move to \<open>a\<close> to \<open>z\<close> and every other character stays. These two functions say
  nothing about any other label; they serve to state the loader's effect on ASCII
  labels and as the lowercasing of the sample inputs.
\<close>

definition is_ascii :: "string \<Rightarrow> bool" where
  "is_ascii s \<longleftrightarrow> list_all (\<lambda>c. of_char c < (128::nat)) s"

definition ascii_lower_char :: "char \<Rightarrow> char" where
  "ascii_lower_char c =
     (if CHR ''A'' \<le> c \<and> c \<le> CHR ''Z'' then char_of (of_char c + (32::nat)) else c)"

definition ascii_lower :: "string \<Rightarrow> string" where
  "ascii_lower s = map ascii_lower_char s"

subsection \<open>Sidebar controls\<close>

text \<open>
  \<^verbatim>\<open>countries = sorted(df["country"].unique())\<close>:
  \<^verbatim>\<open>unique\<close> returns each value of the column once, \<^verbatim>\<open>sorted\<close> orders strings
  lexicographically by character code. The order in which \<^verbatim>\<open>unique\<close> returns the
  values is lost in the sorting, so \<^const>\<open>remdups\<close> stands for it.
\<close>

definition countries :: "dataframe \<Rightarrow> error + string list" where
  "countries df =
     (if ''country'' \<in> set (columns df)
      then Inr (sort (remdups (map country (rows df))))
      else Inl (KeyError ''country''))"

text \<open>
  \<^verbatim>\<open>st.sidebar.selectbox(label, options)\<close> returns the option the user picked, which is
  always one of \<open>options\<close>, and \<^verbatim>\<open>None\<close> when \<open>options\<close> is empty. The user's pick is the
  position \<open>choice\<close>; the widget offers no position past the end of the list.
\<close>

definition selectbox :: "'a list \<Rightarrow> nat \<Rightarrow> 'a option" where
  "selectbox options choice =
     (if choice < length options then Some (options ! choice) else None)"

subsection \<open>Filtering\<close>

text \<open>
  \<^verbatim>\<open>country_df = df[df["country"] == selected_country].sort_values("year")\<close>.
  The comparison of a string cell with \<^verbatim>\<open>None\<close> is false. \<^verbatim>\<open>sort_values\<close> is modelled
  by the stable \<^const>\<open>sort_key\<close>; pandas does not promise an order among rows of equal
  year, and no theorem below depends on one.
\<close>

definition country_df :: "dataframe \<Rightarrow> string option \<Rightarrow> error + dataframe" where
  "country_df df selected_country =
     (if ''country'' \<notin> set (columns df) then Inl (KeyError ''country'')
      else if ''year'' \<notin> set (columns df) then Inl (KeyError ''year'')
      else Inr (df\<lparr>rows :=
             sort_key year (filter (\<lambda>r. Some (country r) = selected_country) (rows df))\<rparr>))"

subsection \<open>Heat map\<close>

text \<open>
  \<^verbatim>\<open>pivot = df.pivot_table(index="country", columns="year", values=access_type)\<close>.
  pandas groups the rows of the table by (country, year), aggregates the values of each
  group with the default \<^verbatim>\<open>aggfunc="mean"\<close>, and lays the groups out with the sorted
  distinct countries as row labels and the sorted distinct years as column labels. A
  pair with no row gives an empty cell (NaN), here \<open>None\<close>. The grouping and the layout
  are written out; the mean is the parameter \<open>mean\<close>.
\<close>

record pivot =
  pindex :: "string list"
  pcolumns :: "int list"
  pvalues :: "real option list list"

definition group_values :: "dataframe \<Rightarrow> access_type \<Rightarrow> string \<Rightarrow> int \<Rightarrow> real list" where
  "group_values df a c y =
     map (metric a) (filter (\<lambda>r. country r = c \<and> year r = y) (rows df))"

definition pivot_cell ::
  "'f pandas \<Rightarrow> dataframe \<Rightarrow> access_type \<Rightarrow> string \<Rightarrow> int \<Rightarrow> real option" where
  "pivot_cell pd df a c y =
     (case group_values df a c y of [] \<Rightarrow> None | v # vs \<Rightarrow> Some (mean pd (v # vs)))"

definition pivot_table :: "'f pandas \<Rightarrow> dataframe \<Rightarrow> access_type \<Rightarrow> error + pivot" where
  "pivot_table pd df a =
     (if label a \<notin> set (columns df) then Inl (KeyError (label a))
      else if ''country'' \<notin> set (columns df) then Inl (KeyError ''country'')
      else if ''year'' \<notin> set (columns df) then Inl (KeyError ''year'')
      else
        let idx = sort (remdups (map country (rows df)));
            cols = sort (remdups (map year (rows df)))
        in Inr \<lparr>pindex = idx, pcolumns = cols,
                 pvalues = map (\<lambda>c. map (\<lambda>y. pivot_cell pd df a c y) cols) idx\<rparr>)"

subsection \<open>Forecasting\<close>

text \<open>
  \<^verbatim>\<open>series = country_df.set_index("year")[access_type]\<close>: the metric of the filtered
  rows, indexed by year, in the order of \<open>country_df\<close>.
\<close>

type_synonym series = "(int \<times> real) list"

definition series_of :: "dataframe \<Rightarrow> access_type \<Rightarrow> error + series" where
  "series_of cdf a =
     (if ''year'' \<notin> set (columns cdf) then Inl (KeyError ''year'')
      else if label a \<notin> set (columns cdf) then Inl (KeyError (label a))
      else Inr (map (\<lambda>r. (year r, metric a r)) (rows cdf)))"

text \<open>
  A forecast value is a double. \<open>Finite r\<close> is a finite double other than the negative
  zero, given by the real number \<open>r\<close> it denotes; the other four are the doubles that
  denote no real number of their own.
\<close>

datatype pyfloat = Finite real | Neg_zero | Pos_inf | Neg_inf | Not_a_number

text \<open>
  The estimator. \<open>fit\<close> is \<^verbatim>\<open>ARIMA(series, order=(1, 1, 1)).fit()\<close>, which may raise;
  \<open>forecast\<close> is \<^verbatim>\<open>model_fit.forecast(steps=n)\<close> and \<open>summary\<close> is
  \<^verbatim>\<open>model_fit.summary()\<close>. All three are parameters of the model.
\<close>

record 'm arima =
  fit :: "series \<Rightarrow> error + 'm"
  forecast :: "'m \<Rightarrow> int \<Rightarrow> pyfloat list"
  summary :: "'m \<Rightarrow> string"

text \<open>
  \<^verbatim>\<open>
  forecast_year_index = range(
      series.index.max() + 1,
      series.index.max() + 1 + forecast_years
  )
  \<close>
  The index of the series holds 64-bit integers, \<^verbatim>\<open>max()\<close> returns a \<^verbatim>\<open>numpy.int64\<close>,
  and each of the two additions on it wraps around at \<open>2 ^ 63\<close>. \<^verbatim>\<open>range\<close> then
  counts in Python integers from the first bound up to, not including, the second. On
  an empty index \<^verbatim>\<open>max()\<close> gives NaN, which \<^verbatim>\<open>range\<close> rejects with a TypeError.
\<close>

definition wrap64 :: "int \<Rightarrow> int" where
  "wrap64 x = (x + 2 ^ 63) mod 2 ^ 64 - 2 ^ 63"

definition index_max :: "int list \<Rightarrow> error + int" where
  "index_max idx = (case idx of [] \<Rightarrow> Inl TypeError | y # ys \<Rightarrow> Inr (fold max ys y))"

definition forecast_year_index :: "int list \<Rightarrow> int \<Rightarrow> error + int list" where
  "forecast_year_index idx forecast_years =
     (case index_max idx of
        Inl e \<Rightarrow> Inl e
      | Inr m \<Rightarrow>
          (let start = wrap64 (m + 1);
               stop = wrap64 (start + forecast_years)
           in Inr [start .. stop - 1]))"

subsection \<open>Recommendation\<close>

text \<open>
  \<^verbatim>\<open>future_value < 90\<close> on a double: the comparison of the real values, with the
  negative zero counting as zero, the infinities at the two ends, and NaN below
  nothing.
\<close>

fun below :: "pyfloat \<Rightarrow> real \<Rightarrow> bool" where
  "below (Finite r) t = (r < t)"
| "below Neg_zero t = (0 < t)"
| "below Pos_inf t = False"
| "below Neg_inf t = True"
| "below Not_a_number t = False"

text \<open>
  \<^verbatim>\<open>f"{future_value:.1f}"\<close>: for a finite value the decimal numeral with one digit after
  the point that is nearest to the value, ties going to the even digit, with a minus
  sign for a negative value; the negative zero keeps its sign; the infinities and NaN
  are spelled out.
\<close>

definition digit_char :: "nat \<Rightarrow> char" where
  "digit_char d = char_of (of_char CHR ''0'' + d)"

fun show_nat :: "nat \<Rightarrow> string" where
  "show_nat n =
     (if n < 10 then [digit_char n] else show_nat (n div 10) @ [digit_char (n mod 10)])"

declare show_nat.simps [simp del]

definition round_half_even :: "real \<Rightarrow> int" where
  "round_half_even x =
     (let f = \<lfloor>x\<rfloor>; d = x - of_int f
      in if d < 1 / 2 then f else if 1 / 2 < d then f + 1 else if even f then f else f + 1)"

fun format_1f :: "pyfloat \<Rightarrow> string" where
  "format_1f (Finite x) =
     (let t = nat (round_half_even (\<bar>x\<bar> * 10))
      in (if x < 0 then ''-'' else []) @ show_nat (t div 10) @ ''.'' @ [digit_char (t mod 10)])"
| "format_1f Neg_zero = ''-0.0''"
| "format_1f Pos_inf = ''inf''"
| "format_1f Neg_inf = ''-inf''"
| "format_1f Not_a_number = ''nan''"

text \<open>\<^verbatim>\<open>str(selected_country)\<close> inside an f-string.\<close>

definition py_str :: "string option \<Rightarrow> string" where
  "py_str s = (case s of None \<Rightarrow> ''None'' | Some c \<Rightarrow> c)"

subsection \<open>The page\<close>

text \<open>
  What a run renders is the list of elements it sends to the main page, in order. The
  fixed markdown blocks are named rather than spelled out. A figure is recorded by the
  data handed to the plotting call; axis labels, titles and styles are left out, and so
  is whatever the plotting library does with the data. The sidebar widgets render
  nothing on the main page.
\<close>

datatype block =
    Description
  | Interpretation
  | Heat_Map_Insight
  | Forecast_Explanation
  | Suggested_Actions

datatype figure =
    TrendChart "int list" "real list"
  | HeatMap pivot
  | ForecastChart series "int list" "pyfloat list"

datatype element =
    Title string
  | Markdown block
  | Header string
  | Warning string
  | Error string
  | Success string
  | Pyplot figure
  | Text string
  | Caption string

text \<open>
  A run ends in one of three ways: it reaches the end of the script, it calls
  \<^verbatim>\<open>st.stop()\<close>, or an exception escapes.
\<close>

datatype outcome = Completed | Stopped | Raised error

type_synonym result = "element list \<times> outcome"

text \<open>
  \<^verbatim>\<open>
  if future_value < 90:
      st.warning(
          f" {selected_country} is projected to remain below universal access "
          f"({future_value:.1f}%). Accelerated investment is recommended."
      )
  else:
      st.success(
          f" {selected_country} is on track to approach universal electricity access."
      )
  \<close>
\<close>

definition recommendation :: "string option \<Rightarrow> pyfloat \<Rightarrow> element" where
  "recommendation selected_country future_value =
     (if below future_value 90
      then Warning ('' '' @ py_str selected_country
             @ '' is projected to remain below universal access ''
             @ ''('' @ format_1f future_value
             @ ''%). Accelerated investment is recommended.'')
      else Success ('' '' @ py_str selected_country
             @ '' is on track to approach universal electricity access.''))"

text \<open>
  The forecasting section and everything after it, lines 131 to 209: the length guard,
  the fit, the forecast and its year index, the forecast chart, the model summary and
  the recommendation. \<^verbatim>\<open>ax.plot(forecast_year_index, forecast)\<close> raises a ValueError
  when its two arguments differ in length, and \<^verbatim>\<open>forecast.iloc[-1]\<close> an IndexError on
  an empty forecast. The name \<^verbatim>\<open>plt\<close> used here was resolved earlier in the run.
\<close>

definition forecasting ::
  "'m arima \<Rightarrow> string option \<Rightarrow> series \<Rightarrow> int \<Rightarrow> result" where
  "forecasting arima selected_country series forecast_years =
     (let page = [Header '' Forecasting Future Electrification''] in
      if length series < 6
      then (page @ [Error ''Not enough data points for forecasting.''], Stopped)
      else
        (case fit arima series of
          Inl e \<Rightarrow> (page, Raised e)
        | Inr model_fit \<Rightarrow>
            (let fc = forecast arima model_fit forecast_years in
             (case forecast_year_index (map fst series) forecast_years of
               Inl e \<Rightarrow> (page, Raised e)
             | Inr idx \<Rightarrow>
                 if length idx \<noteq> length fc then (page, Raised ValueError)
                 else
                   (let page = page @
                         [Pyplot (ForecastChart series idx fc),
                          Markdown Forecast_Explanation,
                          Header '' Model Summary'',
                          Text (summary arima model_fit),
                          Header ''Planning Insights'']
                    in
                      if fc = [] then (page, Raised IndexError)
                      else
                        (page @
                          [recommendation selected_country (last fc),
                           Markdown Suggested_Actions,
                           Caption ''Kubeflow Electrification Project | Streamlit Dashboard | AI-assisted planning''],
                         Completed))))))"

text \<open>
  The names the script binds before its first statement that renders anything, lines 1
  to 5:
  \<^verbatim>\<open>
  import streamlit as st
  import pandas as pd
  import numpy as np

  from statsmodels.tsa.arima.model import ARIMA
  \<close>
  A module-level name that is not bound raises a NameError when the statement using it
  runs.
\<close>

definition script_globals :: "string list" where
  "script_globals = [''st'', ''pd'', ''np'', ''ARIMA'']"

text \<open>
  The whole script as a function of the names bound at module level, the collaborators
  and the user's inputs: the uploaded file (or none), the position picked in the country
  selector, the metric and the forecast horizon of the slider.
\<close>

definition run ::
  "string list \<Rightarrow> 'f pandas \<Rightarrow> 'm arima \<Rightarrow>
   'f option \<Rightarrow> nat \<Rightarrow> access_type \<Rightarrow> int \<Rightarrow> result" where
  "run globals pd arima uploaded_file country_choice access_type forecast_years =
     (let page = [Title ''Electrification Forecasting Dashboard'', Markdown Description] in
      (case uploaded_file of
        None \<Rightarrow> (page @ [Warning ''Please upload a CSV file to continue.''], Stopped)
      | Some file \<Rightarrow>
      (case load_data pd file of Inl e \<Rightarrow> (page, Raised e) | Inr df \<Rightarrow>
      (case countries df of Inl e \<Rightarrow> (page, Raised e) | Inr cs \<Rightarrow>
      (let selected_country = selectbox cs country_choice in
      (case country_df df selected_country of Inl e \<Rightarrow> (page, Raised e) | Inr cdf \<Rightarrow>
      (let page = page @ [Header ''Historical Electrification Trends''] in
      if ''plt'' \<notin> set globals then (page, Raised (NameError ''plt''))
      else if label access_type \<notin> set (columns cdf)
        then (page, Raised (KeyError (label access_type)))
      else
      (let page = page @
            [Pyplot (TrendChart (map year (rows cdf)) (map (metric access_type) (rows cdf))),
             Markdown Interpretation,
             Header '' Electrification Heat Map'']
      in
      (case pivot_table pd df access_type of Inl e \<Rightarrow> (page, Raised e) | Inr pivot \<Rightarrow>
      if ''sns'' \<notin> set globals then (page, Raised (NameError ''sns''))
      else
      (let page = page @ [Pyplot (HeatMap pivot), Markdown Heat_Map_Insight] in
      (case series_of cdf access_type of
        Inl e \<Rightarrow> (page @ [Header '' Forecasting Future Electrification''], Raised e)
      | Inr series \<Rightarrow>
          (let rest = forecasting arima selected_country series forecast_years
           in (page @ fst rest, snd rest)))))))))))))"

text \<open>The script as it stands in the repository.\<close>

definition app ::
  "'f pandas \<Rightarrow> 'm arima \<Rightarrow> 'f option \<Rightarrow> nat \<Rightarrow> access_type \<Rightarrow> int \<Rightarrow> result" where
  "app = run script_globals"

subsection \<open>Reading a numeral back\<close>

text \<open>
  The script only writes numerals. To say which number a written numeral denotes, the
  lemmas about the recommendation read it back with \<open>read_nat\<close>.
\<close>

definition is_digit :: "char \<Rightarrow> bool" where
  "is_digit c \<longleftrightarrow> CHR ''0'' \<le> c \<and> c \<le> CHR ''9''"

definition digit_value :: "char \<Rightarrow> nat" where
  "digit_value c = of_char c - of_char CHR ''0''"

definition read_nat :: "string \<Rightarrow> nat" where
  "read_nat s = foldl (\<lambda>n c. 10 * n + digit_value c) 0 s"

subsection \<open>Sample inputs\<close>

text \<open>
  A small upload in the shape of the specification's examples: Kenya with the eight
  years 2015 to 2022 rising from 55 to 75, Ghana with four years only, the rows in no
  particular order and the column labels capitalised as a spreadsheet export would have
  them. \<open>demo_df\<close> is the same table after loading.
\<close>

definition mk_row :: "string \<Rightarrow> int \<Rightarrow> real \<Rightarrow> row" where
  "mk_row c y v = \<lparr>country = c, year = y, electricity_access = v,
                   rural_access = v - 10, urban_access = v + 10\<rparr>"

definition demo_rows :: "row list" where
  "demo_rows =
     [mk_row ''Kenya'' 2018 64, mk_row ''Ghana'' 2021 84, mk_row ''Kenya'' 2015 55,
      mk_row ''Kenya'' 2022 75, mk_row ''Ghana'' 2019 80, mk_row ''Kenya'' 2016 58,
      mk_row ''Kenya'' 2020 69, mk_row ''Ghana'' 2022 85, mk_row ''Kenya'' 2017 61,
      mk_row ''Kenya'' 2021 72, mk_row ''Ghana'' 2020 82, mk_row ''Kenya'' 2019 66]"

definition demo_raw :: dataframe where
  "demo_raw = \<lparr>columns = [''Country'', ''Year'', ''Electricity_Access'', ''Rural_Access'',
                           ''Urban_Access''],
               rows = demo_rows\<rparr>"

definition demo_df :: dataframe where
  "demo_df = \<lparr>columns = [''country'', ''year'', ''electricity_access'', ''rural_access'',
                          ''urban_access''],
              rows = demo_rows\<rparr>"

text \<open>
  A stand-in for \<^verbatim>\<open>str.lower\<close> that also lowercases the capital letters of the Latin-1
  supplement, \<open>U+00C0\<close> to \<open>U+00DE\<close> without the multiplication sign \<open>U+00D7\<close>: in
  UTF-8 the byte \<open>0xC3\<close> followed by a byte from \<open>0x80\<close> to \<open>0x9E\<close>, whose small letter
  has the second byte 32 higher.
\<close>

fun latin_lower :: "string \<Rightarrow> string" where
  "latin_lower (c # d # cs) =
     (if c = CHR 0xC3 \<and> CHR 0x80 \<le> d \<and> d \<le> CHR 0x9E \<and> d \<noteq> CHR 0x97
      then c # char_of (of_char d + (32::nat)) # latin_lower cs
      else ascii_lower_char c # latin_lower (d # cs))"
| "latin_lower [c] = [ascii_lower_char c]"
| "latin_lower [] = []"

text \<open>
  Stand-ins for pandas: the parser hands out a fixed table whatever the file is, and the
  mean is the exact one, which is the floating-point one wherever the sum and the
  quotient need no rounding, as with the values of the sample tables.
\<close>

definition exact_mean :: "real list \<Rightarrow> real" where
  "exact_mean vs = sum_list vs / real (length vs)"

definition fixed_pd :: "dataframe \<Rightarrow> unit pandas" where
  "fixed_pd raw = \<lparr>read_csv = (\<lambda>file. Inr raw), str_lower = latin_lower, mean = exact_mean\<rparr>"

definition demo_pd :: "unit pandas" where
  "demo_pd = fixed_pd demo_raw"

text \<open>A parser that rejects its file, as pandas does for an empty one.\<close>

definition failing_pd :: "unit pandas" where
  "failing_pd = demo_pd\<lparr>read_csv := (\<lambda>file. Inl (LibraryError ''EmptyDataError''))\<rparr>"

text \<open>
  A table with one column whose label is a capital E with acute accent followed by a
  capital A, and the label that \<^verbatim>\<open>str.lower\<close> makes of it.
\<close>

definition accent_raw :: dataframe where
  "accent_raw = \<lparr>columns = [[CHR 0xC3, CHR 0x89, CHR ''A'']], rows = []\<rparr>"

definition accent_df :: dataframe where
  "accent_df = \<lparr>columns = [[CHR 0xC3, CHR 0xA9, CHR ''a'']], rows = []\<rparr>"

text \<open>The same table with its rows in the opposite order.\<close>

definition demo_df_reversed :: dataframe where
  "demo_df_reversed = demo_df\<lparr>rows := rev (rows demo_df)\<rparr>"

text \<open>
  A stand-in for the estimator: it continues the series by one point a year from the
  last observation.
\<close>

definition demo_arima :: "real arima" where
  "demo_arima = \<lparr>fit = (\<lambda>s. Inr (snd (last s))),
                  forecast = (\<lambda>m n. map (\<lambda>k. Finite (m + real k)) [1 ..< Suc (nat n)]),
                  summary = (\<lambda>m. ''ARIMA(1, 1, 1)'')\<rparr>"

definition kenya_series :: series where
  "kenya_series =
     [(2015, 55), (2016, 58), (2017, 61), (2018, 64), (2019, 66), (2020, 69),
      (2021, 72), (2022, 75)]"

text \<open>A file with a header line and no data line.\<close>

definition header_only :: dataframe where
  "header_only = \<lparr>columns = [''country'', ''year'', ''electricity_access''], rows = []\<rparr>"

text \<open>A table in which Kenya has two rows for the year 2020.\<close>

definition dup_df :: dataframe where
  "dup_df = \<lparr>columns = [''country'', ''year'', ''electricity_access''],
             rows = [mk_row ''Kenya'' 2020 40, mk_row ''Ghana'' 2020 70,
                     mk_row ''Kenya'' 2020 50]\<rparr>"

definition dup_pd :: "unit pandas" where
  "dup_pd = fixed_pd dup_df"

section \<open>Properties\<close>

subsection \<open>No upload\<close>

text \<open>
  Claim C6. If no file is uploaded, the run emits a warning and halts at once: the page
  holds the title, the description and the warning, and nothing else. The parser, the
  estimator and the other inputs do not occur in the result, so no data is loaded and
  no chart, model summary or recommendation is produced.
\<close>

theorem no_upload_warns_and_stops:
  "app pd arima None country_choice access_type forecast_years =
     ([Title ''Electrification Forecasting Dashboard'', Markdown Description,
       Warning ''Please upload a CSV file to continue.''], Stopped)"
  by (simp add: app_def run_def)

subsection \<open>Data loading\<close>

lemma ascii_lower_char_not_upper:
  "\<not> (CHR ''A'' \<le> ascii_lower_char c \<and> ascii_lower_char c \<le> CHR ''Z'')"
  by (auto simp: ascii_lower_char_def less_eq_char_def)

lemma ascii_lower_char_cases:
  "ascii_lower_char c = c \<or>
   (CHR ''A'' \<le> c \<and> c \<le> CHR ''Z'' \<and> of_char (ascii_lower_char c) = of_char c + (32::nat))"
  by (auto simp: ascii_lower_char_def less_eq_char_def)

lemma ascii_lower_effect:
  "length (ascii_lower l) = length l
   \<and> (\<forall>c\<in>set (ascii_lower l). \<not> (CHR ''A'' \<le> c \<and> c \<le> CHR ''Z''))
   \<and> (\<forall>k<length l. ascii_lower l ! k = l ! k \<or>
          (CHR ''A'' \<le> l ! k \<and> l ! k \<le> CHR ''Z''
           \<and> of_char (ascii_lower l ! k) = of_char (l ! k) + (32::nat)))"
  using ascii_lower_char_not_upper ascii_lower_char_cases by (auto simp: ascii_lower_def)

lemma demo_loaded: "load_data demo_pd () = Inr demo_df"
  by code_simp

text \<open>
  Claim C8. The loader returns the parsed table with every column label lowercased and
  does nothing else. A failure of the parser passes through unchanged. When the parser
  yields a table, the loader yields one too, whatever its labels and rows are (nothing
  is validated); the rows are the parser's rows; there are as many labels as before,
  and each is what \<^verbatim>\<open>str.lower\<close> makes of the parser's label at the same place. For a
  label of ASCII characters, on which \<^verbatim>\<open>str.lower\<close> is \<open>ascii_lower\<close>, this means: the
  label keeps its length, holds no capital letter afterwards, and a character has
  changed only if it was a capital letter, by moving 32 code points up to its small
  letter.
\<close>

theorem load_data_lowercases_only:
  "(\<forall>e. read_csv pd file = Inl e \<longrightarrow> load_data pd file = Inl e)
   \<and> (\<forall>raw. read_csv pd file = Inr raw \<longrightarrow>
         (\<exists>df. load_data pd file = Inr df
            \<and> rows df = rows raw
            \<and> length (columns df) = length (columns raw)
            \<and> (\<forall>i<length (columns raw). columns df ! i = str_lower pd (columns raw ! i))
            \<and> (\<forall>i<length (columns raw).
                  is_ascii (columns raw ! i)
                  \<and> str_lower pd (columns raw ! i) = ascii_lower (columns raw ! i) \<longrightarrow>
                    length (columns df ! i) = length (columns raw ! i)
                    \<and> (\<forall>c\<in>set (columns df ! i). \<not> (CHR ''A'' \<le> c \<and> c \<le> CHR ''Z''))
                    \<and> (\<forall>k<length (columns raw ! i).
                          columns df ! i ! k = columns raw ! i ! k \<or>
                          (CHR ''A'' \<le> columns raw ! i ! k \<and> columns raw ! i ! k \<le> CHR ''Z''
                           \<and> of_char (columns df ! i ! k)
                               = of_char (columns raw ! i ! k) + (32::nat))))))"
proof (intro conjI allI impI)
  fix e assume "read_csv pd file = Inl e"
  then show "load_data pd file = Inl e"
    by (simp add: load_data_def)
next
  fix raw assume r: "read_csv pd file = Inr raw"
  define df where "df = raw\<lparr>columns := map (str_lower pd) (columns raw)\<rparr>"
  have l: "load_data pd file = Inr df"
    using r by (simp add: load_data_def df_def)
  have rs: "rows df = rows raw"
    by (simp add: df_def)
  have n: "length (columns df) = length (columns raw)"
    by (simp add: df_def)
  have each: "\<forall>i<length (columns raw). columns df ! i = str_lower pd (columns raw ! i)"
    by (simp add: df_def)
  have ascii: "\<forall>i<length (columns raw).
                  is_ascii (columns raw ! i)
                  \<and> str_lower pd (columns raw ! i) = ascii_lower (columns raw ! i) \<longrightarrow>
                    length (columns df ! i) = length (columns raw ! i)
                    \<and> (\<forall>c\<in>set (columns df ! i). \<not> (CHR ''A'' \<le> c \<and> c \<le> CHR ''Z''))
                    \<and> (\<forall>k<length (columns raw ! i).
                          columns df ! i ! k = columns raw ! i ! k \<or>
                          (CHR ''A'' \<le> columns raw ! i ! k \<and> columns raw ! i ! k \<le> CHR ''Z''
                           \<and> of_char (columns df ! i ! k)
                               = of_char (columns raw ! i ! k) + (32::nat)))"
  proof (intro allI impI)
    fix i assume i: "i < length (columns raw)"
      and a: "is_ascii (columns raw ! i)
              \<and> str_lower pd (columns raw ! i) = ascii_lower (columns raw ! i)"
    from each i a have "columns df ! i = ascii_lower (columns raw ! i)"
      by simp
    then show "length (columns df ! i) = length (columns raw ! i)
                    \<and> (\<forall>c\<in>set (columns df ! i). \<not> (CHR ''A'' \<le> c \<and> c \<le> CHR ''Z''))
                    \<and> (\<forall>k<length (columns raw ! i).
                          columns df ! i ! k = columns raw ! i ! k \<or>
                          (CHR ''A'' \<le> columns raw ! i ! k \<and> columns raw ! i ! k \<le> CHR ''Z''
                           \<and> of_char (columns df ! i ! k)
                               = of_char (columns raw ! i ! k) + (32::nat)))"
      using ascii_lower_effect[of "columns raw ! i"] by simp
  qed
  show "\<exists>df. load_data pd file = Inr df
            \<and> rows df = rows raw
            \<and> length (columns df) = length (columns raw)
            \<and> (\<forall>i<length (columns raw). columns df ! i = str_lower pd (columns raw ! i))
            \<and> (\<forall>i<length (columns raw).
                  is_ascii (columns raw ! i)
                  \<and> str_lower pd (columns raw ! i) = ascii_lower (columns raw ! i) \<longrightarrow>
                    length (columns df ! i) = length (columns raw ! i)
                    \<and> (\<forall>c\<in>set (columns df ! i). \<not> (CHR ''A'' \<le> c \<and> c \<le> CHR ''Z''))
                    \<and> (\<forall>k<length (columns raw ! i).
                          columns df ! i ! k = columns raw ! i ! k \<or>
                          (CHR ''A'' \<le> columns raw ! i ! k \<and> columns raw ! i ! k \<le> CHR ''Z''
                           \<and> of_char (columns df ! i ! k)
                               = of_char (columns raw ! i ! k) + (32::nat))))"
    apply (rule exI[of _ df])
    using l rs n each ascii
    apply (intro conjI)
    apply assumption+
    done
qed

theorem load_data_lowercases_only_demo:
  "read_csv demo_pd () = Inr demo_raw
   \<and> load_data demo_pd () = Inr demo_df
   \<and> rows demo_df = rows demo_raw
   \<and> length (columns demo_df) = length (columns demo_raw)
   \<and> columns demo_raw ! 2 = ''Electricity_Access''
   \<and> is_ascii (columns demo_raw ! 2)
   \<and> str_lower demo_pd (columns demo_raw ! 2) = ascii_lower (columns demo_raw ! 2)
   \<and> columns demo_df ! 2 = ''electricity_access''
   \<and> length (columns demo_df ! 2) = length (columns demo_raw ! 2)
   \<and> list_all (\<lambda>c. \<not> (CHR ''A'' \<le> c \<and> c \<le> CHR ''Z'')) (columns demo_df ! 2)
   \<and> read_csv failing_pd () = Inl (LibraryError ''EmptyDataError'')
   \<and> load_data failing_pd () = Inl (LibraryError ''EmptyDataError'')
   \<and> read_csv (fixed_pd accent_raw) () = Inr accent_raw
   \<and> load_data (fixed_pd accent_raw) () = Inr accent_df
   \<and> columns accent_df ! 0 = str_lower (fixed_pd accent_raw) (columns accent_raw ! 0)"
proof -
  have h: "read_csv demo_pd () = Inr demo_raw"
    by (simp add: demo_pd_def fixed_pd_def)
  have g: "read_csv failing_pd () = Inl (LibraryError ''EmptyDataError'')"
    by (simp add: failing_pd_def)
  have k: "read_csv (fixed_pd accent_raw) () = Inr accent_raw"
    by (simp add: fixed_pd_def)
  have two: "(2::nat) < length (columns demo_raw)" by code_simp
  have zero: "(0::nat) < length (columns accent_raw)" by code_simp
  have lab: "columns demo_raw ! 2 = ''Electricity_Access''" by code_simp
  have asc: "is_ascii (columns demo_raw ! 2)" by code_simp
  have low: "str_lower demo_pd (columns demo_raw ! 2) = ascii_lower (columns demo_raw ! 2)"
    by code_simp
  have res: "ascii_lower (columns demo_raw ! 2) = ''electricity_access''" by code_simp
  from load_data_lowercases_only[of demo_pd "()"] h
  obtain df where df: "load_data demo_pd () = Inr df" "rows df = rows demo_raw"
    "length (columns df) = length (columns demo_raw)"
    "\<forall>i<length (columns demo_raw). columns df ! i = str_lower demo_pd (columns demo_raw ! i)"
    and ascii: "\<forall>i<length (columns demo_raw).
        is_ascii (columns demo_raw ! i)
        \<and> str_lower demo_pd (columns demo_raw ! i) = ascii_lower (columns demo_raw ! i) \<longrightarrow>
          length (columns df ! i) = length (columns demo_raw ! i)
          \<and> (\<forall>c\<in>set (columns df ! i). \<not> (CHR ''A'' \<le> c \<and> c \<le> CHR ''Z''))"
    by blast
  from df(1) have eq: "df = demo_df"
    by (simp add: demo_loaded)
  with df two low res have 1: "load_data demo_pd () = Inr demo_df
      \<and> rows demo_df = rows demo_raw
      \<and> length (columns demo_df) = length (columns demo_raw)
      \<and> columns demo_df ! 2 = ''electricity_access''"
    by auto
  from ascii two asc low eq have "length (columns demo_df ! 2) = length (columns demo_raw ! 2)
      \<and> (\<forall>c\<in>set (columns demo_df ! 2). \<not> (CHR ''A'' \<le> c \<and> c \<le> CHR ''Z''))"
    by blast
  then have 5: "length (columns demo_df ! 2) = length (columns demo_raw ! 2)
      \<and> list_all (\<lambda>c. \<not> (CHR ''A'' \<le> c \<and> c \<le> CHR ''Z'')) (columns demo_df ! 2)"
    by (simp add: list_all_iff)
  from load_data_lowercases_only[of failing_pd "()"] g
  have 2: "load_data failing_pd () = Inl (LibraryError ''EmptyDataError'')"
    by blast
  have 3: "load_data (fixed_pd accent_raw) () = Inr accent_df" by code_simp
  from load_data_lowercases_only[of "fixed_pd accent_raw" "()"] k
  obtain df' where df': "load_data (fixed_pd accent_raw) () = Inr df'"
    "\<forall>i<length (columns accent_raw).
        columns df' ! i = str_lower (fixed_pd accent_raw) (columns accent_raw ! i)"
    by blast
  from df'(1) 3 have "df' = accent_df" by simp
  with df'(2) zero
  have 4: "columns accent_df ! 0 = str_lower (fixed_pd accent_raw) (columns accent_raw ! 0)"
    by blast
  from h g k lab asc low 1 2 3 4 5 show ?thesis by blast
qed

subsection \<open>The country selector\<close>

lemma selectbox_range: "(\<exists>choice. selectbox xs choice = Some x) \<longleftrightarrow> x \<in> set xs"
  by (auto simp: selectbox_def in_set_conv_nth split: if_splits)

text \<open>
  Claim C4. For every loaded dataset (with a country column), the list of selectable
  countries is the sorted list of the distinct values of the country column: it is
  sorted, it has no duplicate, it holds exactly the values occurring in the column, and
  the values the selector can return are exactly those.
\<close>

theorem countries_sorted_distinct:
  assumes "''country'' \<in> set (columns df)"
  shows "\<exists>cs. countries df = Inr cs \<and> sorted cs \<and> distinct cs
           \<and> set cs = country ` set (rows df)
           \<and> (\<forall>c. (\<exists>choice. selectbox cs choice = Some c) \<longleftrightarrow> c \<in> country ` set (rows df))"
  using assms by (simp add: countries_def selectbox_range)

theorem countries_sorted_distinct_demo:
  "''country'' \<in> set (columns demo_df)
   \<and> countries demo_df = Inr [''Ghana'', ''Kenya'']
   \<and> selectbox [''Ghana'', ''Kenya''] 1 = Some ''Kenya''
   \<and> (\<exists>cs. countries demo_df = Inr cs \<and> sorted cs \<and> distinct cs
          \<and> set cs = country ` set (rows demo_df))"
proof -
  have h: "''country'' \<in> set (columns demo_df)" by code_simp
  have e: "countries demo_df = Inr [''Ghana'', ''Kenya'']" by code_simp
  have s: "selectbox [''Ghana'', ''Kenya''] 1 = Some ''Kenya''" by code_simp
  from countries_sorted_distinct[OF h] h e s show ?thesis by blast
qed

subsection \<open>The rows of the selected country\<close>

text \<open>
  Claim C5. For every dataset and every selected country, the rows handed to the trend
  view are exactly the dataset's rows of that country (as a multiset: each such row as
  often as it occurs, and no other row), in ascending order of year. The order of the
  rows in the file does not matter: a second table \<open>df'\<close> with the same rows in any
  other order gives the same rows again, with the same sequence of years.
\<close>

theorem country_df_sorted_by_year:
  assumes "''country'' \<in> set (columns df)" and "''year'' \<in> set (columns df)"
    and "columns df' = columns df" and "mset (rows df') = mset (rows df)"
  shows "\<exists>cdf cdf'. country_df df sel = Inr cdf \<and> country_df df' sel = Inr cdf'
           \<and> columns cdf = columns df
           \<and> mset (rows cdf) = filter_mset (\<lambda>r. Some (country r) = sel) (mset (rows df))
           \<and> sorted (map year (rows cdf))
           \<and> mset (rows cdf') = mset (rows cdf)
           \<and> map year (rows cdf') = map year (rows cdf)"
proof -
  define s where "s = sort_key year (filter (\<lambda>r. Some (country r) = sel) (rows df))"
  define s' where "s' = sort_key year (filter (\<lambda>r. Some (country r) = sel) (rows df'))"
  have m: "mset s' = mset s"
    by (simp add: s_def s'_def assms(4))
  have e: "mset (map year s') = mset (map year s)"
    using arg_cong[OF m, of "image_mset year"] by (simp only: mset_map)
  have "sort (map year s) = map year s'"
    by (rule properties_for_sort[OF e]) (simp add: s'_def)
  moreover have "sort (map year s) = map year s"
    by (rule sorted_sort_id) (simp add: s_def)
  ultimately have y: "map year s' = map year s"
    by simp
  have f: "mset s = filter_mset (\<lambda>r. Some (country r) = sel) (mset (rows df))"
    by (simp add: s_def)
  have o: "sorted (map year s)"
    by (simp add: s_def)
  have 1: "country_df df sel = Inr (df\<lparr>rows := s\<rparr>)"
    using assms(1,2) by (simp add: country_df_def s_def)
  have 2: "country_df df' sel = Inr (df'\<lparr>rows := s'\<rparr>)"
    using assms(1-3) by (simp add: country_df_def s'_def)
  from 1 2 m y f o show ?thesis by simp
qed

theorem country_df_sorted_by_year_demo:
  "''country'' \<in> set (columns demo_df) \<and> ''year'' \<in> set (columns demo_df)
   \<and> columns demo_df_reversed = columns demo_df
   \<and> mset (rows demo_df_reversed) = mset (rows demo_df)
   \<and> country_df demo_df (Some ''Ghana'') =
       Inr (demo_df\<lparr>rows := [mk_row ''Ghana'' 2019 80, mk_row ''Ghana'' 2020 82,
                             mk_row ''Ghana'' 2021 84, mk_row ''Ghana'' 2022 85]\<rparr>)
   \<and> country_df demo_df_reversed (Some ''Ghana'') = country_df demo_df (Some ''Ghana'')
   \<and> (\<exists>cdf cdf'. country_df demo_df (Some ''Ghana'') = Inr cdf
          \<and> country_df demo_df_reversed (Some ''Ghana'') = Inr cdf'
          \<and> sorted (map year (rows cdf))
          \<and> map year (rows cdf') = map year (rows cdf))"
proof -
  have h1: "''country'' \<in> set (columns demo_df)" by code_simp
  have h2: "''year'' \<in> set (columns demo_df)" by code_simp
  have h3: "columns demo_df_reversed = columns demo_df"
    by (simp add: demo_df_reversed_def)
  have h4: "mset (rows demo_df_reversed) = mset (rows demo_df)"
    by (simp add: demo_df_reversed_def)
  have e1: "country_df demo_df (Some ''Ghana'') =
       Inr (demo_df\<lparr>rows := [mk_row ''Ghana'' 2019 80, mk_row ''Ghana'' 2020 82,
                             mk_row ''Ghana'' 2021 84, mk_row ''Ghana'' 2022 85]\<rparr>)"
    by code_simp
  have e2: "country_df demo_df_reversed (Some ''Ghana'') = country_df demo_df (Some ''Ghana'')"
    by code_simp
  from country_df_sorted_by_year[OF h1 h2 h3 h4, of "Some ''Ghana''"] h1 h2 h3 h4 e1 e2
  show ?thesis by blast
qed

subsection \<open>The later sections, once reached\<close>

text \<open>
  The lemmas of this subsection say what the heat map, the forecasting section and the
  recommendation compute when a run gets to them, which takes a run in which the names
  \<^verbatim>\<open>plt\<close> and \<^verbatim>\<open>sns\<close> are bound. The next subsection shows that the script as it
  stands is no such run.
\<close>

lemma pivot_cell_None_iff:
  "pivot_cell pd df a c y = None \<longleftrightarrow> (\<forall>r\<in>set (rows df). \<not> (country r = c \<and> year r = y))"
proof -
  have "pivot_cell pd df a c y = None \<longleftrightarrow> group_values df a c y = []"
    by (cases "group_values df a c y") (simp_all add: pivot_cell_def)
  also have "\<dots> \<longleftrightarrow> (\<forall>r\<in>set (rows df). \<not> (country r = c \<and> year r = y))"
    by (simp add: group_values_def filter_empty_conv)
  finally show ?thesis .
qed

lemma pivot_cell_group:
  assumes "group_values df a c y \<noteq> []"
  shows "pivot_cell pd df a c y = Some (mean pd (group_values df a c y))"
  using assms by (cases "group_values df a c y") (simp_all add: pivot_cell_def)

lemma pivot_table_Inr:
  assumes "label a \<in> set (columns df)" and "''country'' \<in> set (columns df)"
    and "''year'' \<in> set (columns df)"
  shows "pivot_table pd df a = Inr
           \<lparr>pindex = sort (remdups (map country (rows df))),
            pcolumns = sort (remdups (map year (rows df))),
            pvalues = map (\<lambda>c. map (\<lambda>y. pivot_cell pd df a c y)
                        (sort (remdups (map year (rows df)))))
                        (sort (remdups (map country (rows df))))\<rparr>"
  using assms by (simp add: pivot_table_def Let_def)

lemma nth_of_member:
  assumes "x \<in> set xs"
  obtains i where "i < length xs" and "xs ! i = x"
  using assms by (auto simp: in_set_conv_nth)

text \<open>
  The pivot of a table: its row labels are the countries of the table, its column
  labels the years, a cell is empty exactly when the table has no row for its pair,
  and otherwise holds the mean of the selected metric over the rows of the pair.
\<close>

lemma pivot_table_cells:
  assumes "label a \<in> set (columns df)" and "''country'' \<in> set (columns df)"
    and "''year'' \<in> set (columns df)"
  shows "\<exists>p. pivot_table pd df a = Inr p
           \<and> Inr (pindex p) = countries df
           \<and> sorted (pcolumns p) \<and> distinct (pcolumns p)
           \<and> set (pcolumns p) = year ` set (rows df)
           \<and> length (pvalues p) = length (pindex p)
           \<and> (\<forall>i<length (pindex p). length (pvalues p ! i) = length (pcolumns p)
                 \<and> (\<forall>j<length (pcolumns p).
                       pvalues p ! i ! j =
                         (if \<exists>r\<in>set (rows df).
                               country r = pindex p ! i \<and> year r = pcolumns p ! j
                          then Some (mean pd (map (metric a)
                                 (filter (\<lambda>r. country r = pindex p ! i
                                              \<and> year r = pcolumns p ! j) (rows df))))
                          else None)))"
proof -
  define idx where "idx = sort (remdups (map country (rows df)))"
  define cols where "cols = sort (remdups (map year (rows df)))"
  define p where "p = \<lparr>pindex = idx, pcolumns = cols,
             pvalues = map (\<lambda>c. map (\<lambda>y. pivot_cell pd df a c y) cols) idx\<rparr>"
  have sel: "pindex p = idx" "pcolumns p = cols"
    "pvalues p = map (\<lambda>c. map (\<lambda>y. pivot_cell pd df a c y) cols) idx"
    by (simp_all add: p_def)
  have p: "pivot_table pd df a = Inr p"
    unfolding p_def idx_def cols_def using assms by (rule pivot_table_Inr)
  have cs: "Inr idx = countries df"
    using assms(2) by (simp add: countries_def idx_def)
  have cols_props: "sorted cols" "distinct cols" "set cols = year ` set (rows df)"
    by (simp_all add: cols_def)
  have len: "length (pvalues p) = length idx"
    by (simp add: sel)
  have content: "pivot_cell pd df a c y =
                 (if \<exists>r\<in>set (rows df). country r = c \<and> year r = y
                  then Some (mean pd (map (metric a)
                         (filter (\<lambda>r. country r = c \<and> year r = y) (rows df))))
                  else None)" for c y
  proof (cases "\<exists>r\<in>set (rows df). country r = c \<and> year r = y")
    case True
    then have "group_values df a c y \<noteq> []"
      by (auto simp: group_values_def filter_empty_conv)
    from pivot_cell_group[OF this, of pd] True show ?thesis
      by (simp add: group_values_def)
  next
    case False
    then have "pivot_cell pd df a c y = None"
      unfolding pivot_cell_None_iff by blast
    with False show ?thesis
      by (simp only: if_False)
  qed
  have cell: "pvalues p ! i ! j = pivot_cell pd df a (idx ! i) (cols ! j)"
    if "i < length idx" and "j < length cols" for i j
    using that by (simp add: sel)
  have row_len: "length (pvalues p ! i) = length cols" if "i < length idx" for i
    using that by (simp add: sel)
  have cells: "\<forall>i<length idx. length (pvalues p ! i) = length cols
                 \<and> (\<forall>j<length cols.
                       pvalues p ! i ! j =
                         (if \<exists>r\<in>set (rows df). country r = idx ! i \<and> year r = cols ! j
                          then Some (mean pd (map (metric a)
                                 (filter (\<lambda>r. country r = idx ! i \<and> year r = cols ! j)
                                    (rows df))))
                          else None))"
    using cell row_len content by simp
  show ?thesis
    apply (rule exI[of _ p])
    unfolding sel(1,2)
    using p cs cols_props len cells
    apply (intro conjI)
    apply assumption+
    done
qed

lemma pivot_table_demo:
  "pivot_table demo_pd demo_df Rural_access =
     Inr \<lparr>pindex = [''Ghana'', ''Kenya''],
           pcolumns = [2015, 2016, 2017, 2018, 2019, 2020, 2021, 2022],
           pvalues =
             [[None, None, None, None, Some 70, Some 72, Some 74, Some 75],
              [Some 45, Some 48, Some 51, Some 54, Some 56, Some 59, Some 62, Some 65]]\<rparr>"
  by code_simp

lemma pivot_table_dup_demo:
  "pivot_table dup_pd dup_df Electricity_access =
     Inr \<lparr>pindex = [''Ghana'', ''Kenya''], pcolumns = [2020],
           pvalues = [[Some 70], [Some (mean dup_pd [40, 50])]]\<rparr>"
  by code_simp

text \<open>
  The year index: as long as the years stay within the 64-bit range, it is the
  contiguous range of the \<open>N\<close> years after the greatest year of the series, which is
  the year of the last entry when the series is in ascending order of year. At the end
  of the range it wraps around.
\<close>

lemma index_max_Max: "idx \<noteq> [] \<Longrightarrow> index_max idx = Inr (Max (set idx))"
  by (cases idx) (simp_all add: index_max_def flip: Max.set_eq_fold)

lemma sorted_Max_last:
  fixes xs :: "int list"
  assumes "sorted xs" and "xs \<noteq> []"
  shows "Max (set xs) = last xs"
proof (cases xs rule: rev_cases)
  case Nil
  with assms(2) show ?thesis by simp
next
  case (snoc ys y)
  with assms(1) have "\<forall>x\<in>set ys. x \<le> y"
    by (simp add: sorted_append)
  with snoc show ?thesis
    by (auto intro!: Max_eqI)
qed

lemma wrap64_id: "- (2 ^ 63) \<le> x \<Longrightarrow> x < 2 ^ 63 \<Longrightarrow> wrap64 x = x"
  by (simp add: wrap64_def)

lemma forecast_year_index_contiguous:
  assumes "idx \<noteq> []" and "- (2 ^ 63) \<le> Max (set idx)" and "0 \<le> N"
    and "Max (set idx) + N < 2 ^ 63 - 1"
  shows "forecast_year_index idx N = Inr [Max (set idx) + 1 .. Max (set idx) + N]"
proof -
  have 1: "wrap64 (Max (set idx) + 1) = Max (set idx) + 1"
    using assms(2-4) by (intro wrap64_id) simp_all
  have 2: "wrap64 (Max (set idx) + 1 + N) = Max (set idx) + 1 + N"
    using assms(2-4) by (intro wrap64_id) simp_all
  show ?thesis
    using assms(1) by (simp add: forecast_year_index_def index_max_Max Let_def 1 2)
qed

lemma forecast_year_index_demo:
  "forecast_year_index (map fst kenya_series) 5 = Inr [2023, 2024, 2025, 2026, 2027]"
  by code_simp

lemma forecast_year_index_wraps:
  "forecast_year_index [9223372036854775807] 5 =
     Inr [- 9223372036854775808, - 9223372036854775807, - 9223372036854775806,
          - 9223372036854775805, - 9223372036854775804]"
  by code_simp

text \<open>The forecasting section.\<close>

lemma forecasting_short:
  "length series < 6 \<Longrightarrow>
   forecasting arima sel series N =
     ([Header '' Forecasting Future Electrification'',
       Error ''Not enough data points for forecasting.''], Stopped)"
  by (simp add: forecasting_def)

lemma forecasting_completes:
  assumes "6 \<le> length series" and "fit arima series = Inr m"
    and "forecast_year_index (map fst series) N = Inr ys"
    and "length (forecast arima m N) = length ys" and "ys \<noteq> []"
  shows "forecasting arima sel series N =
     ([Header '' Forecasting Future Electrification'',
       Pyplot (ForecastChart series ys (forecast arima m N)),
       Markdown Forecast_Explanation,
       Header '' Model Summary'',
       Text (summary arima m),
       Header ''Planning Insights'',
       recommendation sel (last (forecast arima m N)),
       Markdown Suggested_Actions,
       Caption ''Kubeflow Electrification Project | Streamlit Dashboard | AI-assisted planning''],
      Completed)"
proof -
  from assms(4,5) have "forecast arima m N \<noteq> []" by auto
  with assms show ?thesis
    by (simp add: forecasting_def Let_def)
qed

text \<open>
  The recommendation: the success message from 90 on, the warning message below 90,
  each naming the selected country, and the warning showing the value with one decimal
  place: a minus sign if the value is negative, at least one digit, a point and exactly
  one digit, together denoting a number within 0.05 of the value.
\<close>

lemma digit_value_digit_char: "d < 10 \<Longrightarrow> digit_value (digit_char d) = d"
  by (simp add: digit_value_def digit_char_def)

lemma is_digit_digit_char: "d < 10 \<Longrightarrow> is_digit (digit_char d)"
  by (simp add: is_digit_def digit_char_def less_eq_char_def)

lemma read_nat_snoc: "read_nat (s @ [c]) = 10 * read_nat s + digit_value c"
  by (simp add: read_nat_def)

lemma read_nat_show_nat: "read_nat (show_nat n) = n"
proof (induction n rule: show_nat.induct)
  case (1 n)
  show ?case
  proof (cases "n < 10")
    case True
    then show ?thesis
      by (simp add: show_nat.simps[of n] read_nat_def digit_value_digit_char)
  next
    case False
    with 1 have "read_nat (show_nat (n div 10)) = n div 10" by simp
    with False show ?thesis
      by (simp add: show_nat.simps[of n] read_nat_snoc digit_value_digit_char)
  qed
qed

lemma show_nat_digits: "\<forall>c\<in>set (show_nat n). is_digit c"
proof (induction n rule: show_nat.induct)
  case (1 n)
  show ?case
  proof (cases "n < 10")
    case True
    then show ?thesis
      by (simp add: show_nat.simps[of n] is_digit_digit_char)
  next
    case False
    with 1 have "\<forall>c\<in>set (show_nat (n div 10)). is_digit c" by simp
    with False show ?thesis
      by (simp add: show_nat.simps[of n] is_digit_digit_char)
  qed
qed

lemma show_nat_nonempty: "show_nat n \<noteq> []"
  by (simp add: show_nat.simps[of n])

lemma round_half_even_close: "\<bar>real_of_int (round_half_even x) - x\<bar> \<le> 1 / 2"
  unfolding round_half_even_def Let_def by (auto; linarith)

lemma round_half_even_nonneg: "0 \<le> x \<Longrightarrow> 0 \<le> round_half_even x"
  unfolding round_half_even_def Let_def by (auto; linarith)

lemma format_1f_shape:
  "\<exists>ds d. format_1f (Finite v) = (if v < 0 then ''-'' else []) @ ds @ ''.'' @ [d]
      \<and> ds \<noteq> [] \<and> (\<forall>c\<in>set (ds @ [d]). is_digit c)
      \<and> \<bar>\<bar>v\<bar> - (real (read_nat ds) + real (digit_value d) / 10)\<bar> \<le> 1 / 20"
proof -
  define t where "t = nat (round_half_even (\<bar>v\<bar> * 10))"
  have f: "format_1f (Finite v) =
      (if v < 0 then ''-'' else []) @ show_nat (t div 10) @ ''.'' @ [digit_char (t mod 10)]"
    by (simp add: t_def Let_def)
  have "0 \<le> round_half_even (\<bar>v\<bar> * 10)"
    by (rule round_half_even_nonneg) simp
  then have "real t = real_of_int (round_half_even (\<bar>v\<bar> * 10))"
    by (simp add: t_def)
  with round_half_even_close[of "\<bar>v\<bar> * 10"] have c: "\<bar>real t - \<bar>v\<bar> * 10\<bar> \<le> 1 / 2"
    by simp
  have "real t = 10 * real (t div 10) + real (t mod 10)"
    by (metis of_nat_add of_nat_mult of_nat_numeral div_mult_mod_eq mult.commute)
  with c have "\<bar>\<bar>v\<bar> - (real (t div 10) + real (t mod 10) / 10)\<bar> \<le> 1 / 20"
    by linarith
  then have "\<bar>\<bar>v\<bar> - (real (read_nat (show_nat (t div 10)))
                  + real (digit_value (digit_char (t mod 10))) / 10)\<bar> \<le> 1 / 20"
    by (simp add: read_nat_show_nat digit_value_digit_char)
  moreover have "\<forall>c\<in>set (show_nat (t div 10) @ [digit_char (t mod 10)]). is_digit c"
    using show_nat_digits[of "t div 10"] by (simp add: is_digit_digit_char)
  ultimately show ?thesis
    using f show_nat_nonempty by blast
qed

lemma recommendation_threshold:
  "(90 \<le> v \<longrightarrow> recommendation (Some c) (Finite v) =
        Success ('' '' @ c @ '' is on track to approach universal electricity access.''))
   \<and> (v < 90 \<longrightarrow> (\<exists>ds d. recommendation (Some c) (Finite v) =
        Warning ('' '' @ c @ '' is projected to remain below universal access ''
                 @ ''('' @ (if v < 0 then ''-'' else []) @ ds @ ''.'' @ [d]
                 @ ''%). Accelerated investment is recommended.'')
        \<and> ds \<noteq> [] \<and> (\<forall>c\<in>set (ds @ [d]). is_digit c)
        \<and> \<bar>\<bar>v\<bar> - (real (read_nat ds) + real (digit_value d) / 10)\<bar> \<le> 1 / 20))"
proof (intro conjI impI)
  assume "90 \<le> v"
  then show "recommendation (Some c) (Finite v) =
        Success ('' '' @ c @ '' is on track to approach universal electricity access.'')"
    by (simp add: recommendation_def py_str_def)
next
  assume v: "v < 90"
  from format_1f_shape[of v] obtain ds d where
    f: "format_1f (Finite v) = (if v < 0 then ''-'' else []) @ ds @ ''.'' @ [d]"
    and p: "ds \<noteq> []" "\<forall>c\<in>set (ds @ [d]). is_digit c"
      "\<bar>\<bar>v\<bar> - (real (read_nat ds) + real (digit_value d) / 10)\<bar> \<le> 1 / 20"
    by blast
  have "recommendation (Some c) (Finite v) =
        Warning ('' '' @ c @ '' is projected to remain below universal access ''
                 @ ''('' @ (if v < 0 then ''-'' else []) @ ds @ ''.'' @ [d]
                 @ ''%). Accelerated investment is recommended.'')"
    using v by (simp add: recommendation_def py_str_def f del: format_1f.simps)
  with p show "\<exists>ds d. recommendation (Some c) (Finite v) =
        Warning ('' '' @ c @ '' is projected to remain below universal access ''
                 @ ''('' @ (if v < 0 then ''-'' else []) @ ds @ ''.'' @ [d]
                 @ ''%). Accelerated investment is recommended.'')
        \<and> ds \<noteq> [] \<and> (\<forall>c\<in>set (ds @ [d]). is_digit c)
        \<and> \<bar>\<bar>v\<bar> - (real (read_nat ds) + real (digit_value d) / 10)\<bar> \<le> 1 / 20"
    by blast
qed

lemma recommendation_demo:
  "recommendation (Some ''Kenya'') (Finite (823 / 10)) =
     Warning '' Kenya is projected to remain below universal access (82.3%). Accelerated investment is recommended.''
   \<and> recommendation (Some ''Ghana'') (Finite 90) =
     Success '' Ghana is on track to approach universal electricity access.''
   \<and> recommendation None (Finite 95) =
     Success '' None is on track to approach universal electricity access.''"
  by code_simp

lemma recommendation_special:
  "recommendation (Some ''Kenya'') Neg_zero =
     Warning '' Kenya is projected to remain below universal access (-0.0%). Accelerated investment is recommended.''
   \<and> recommendation (Some ''Kenya'') Neg_inf =
     Warning '' Kenya is projected to remain below universal access (-inf%). Accelerated investment is recommended.''
   \<and> recommendation (Some ''Kenya'') Pos_inf =
     Success '' Kenya is on track to approach universal electricity access.''
   \<and> recommendation (Some ''Kenya'') Not_a_number =
     Success '' Kenya is on track to approach universal electricity access.''"
  by (simp add: recommendation_def py_str_def)

text \<open>
  Whole runs with both names bound. With fewer than six observations the run renders
  the trend chart and the heat map, then the error, and stops, whatever the estimator
  is. The heat map of a run is the pivot of the whole loaded table, whichever country is
  selected.
\<close>

lemma run_insufficient_data:
  assumes "''plt'' \<in> set globals" and "''sns'' \<in> set globals"
    and "load_data pd file = Inr df" and "countries df = Inr cs"
    and "country_df df (selectbox cs choice) = Inr cdf"
    and "pivot_table pd df a = Inr p"
    and "series_of cdf a = Inr s" and "length s < 6"
  shows "run globals pd arima (Some file) choice a N =
     ([Title ''Electrification Forecasting Dashboard'', Markdown Description,
       Header ''Historical Electrification Trends'',
       Pyplot (TrendChart (map year (rows cdf)) (map (metric a) (rows cdf))),
       Markdown Interpretation,
       Header '' Electrification Heat Map'',
       Pyplot (HeatMap p),
       Markdown Heat_Map_Insight,
       Header '' Forecasting Future Electrification'',
       Error ''Not enough data points for forecasting.''], Stopped)"
proof -
  from assms(7) have "label a \<in> set (columns cdf)"
    by (auto simp: series_of_def split: if_splits)
  with assms show ?thesis
    by (simp add: run_def Let_def forecasting_short)
qed

lemma run_insufficient_data_demo:
  "run (script_globals @ [''plt'', ''sns'']) demo_pd demo_arima (Some ()) 0
     Electricity_access 5 =
     ([Title ''Electrification Forecasting Dashboard'', Markdown Description,
       Header ''Historical Electrification Trends'',
       Pyplot (TrendChart [2019, 2020, 2021, 2022] [80, 82, 84, 85]),
       Markdown Interpretation,
       Header '' Electrification Heat Map'',
       Pyplot (HeatMap
         \<lparr>pindex = [''Ghana'', ''Kenya''],
          pcolumns = [2015, 2016, 2017, 2018, 2019, 2020, 2021, 2022],
          pvalues =
            [[None, None, None, None, Some 80, Some 82, Some 84, Some 85],
             [Some 55, Some 58, Some 61, Some 64, Some 66, Some 69, Some 72, Some 75]]\<rparr>),
       Markdown Heat_Map_Insight,
       Header '' Forecasting Future Electrification'',
       Error ''Not enough data points for forecasting.''], Stopped)"
  by code_simp

lemma run_completes_demo:
  "run (script_globals @ [''plt'', ''sns'']) demo_pd demo_arima (Some ()) 1
     Electricity_access 5 =
     ([Title ''Electrification Forecasting Dashboard'', Markdown Description,
       Header ''Historical Electrification Trends'',
       Pyplot (TrendChart [2015, 2016, 2017, 2018, 2019, 2020, 2021, 2022]
                 [55, 58, 61, 64, 66, 69, 72, 75]),
       Markdown Interpretation,
       Header '' Electrification Heat Map'',
       Pyplot (HeatMap
         \<lparr>pindex = [''Ghana'', ''Kenya''],
          pcolumns = [2015, 2016, 2017, 2018, 2019, 2020, 2021, 2022],
          pvalues =
            [[None, None, None, None, Some 80, Some 82, Some 84, Some 85],
             [Some 55, Some 58, Some 61, Some 64, Some 66, Some 69, Some 72, Some 75]]\<rparr>),
       Markdown Heat_Map_Insight,
       Header '' Forecasting Future Electrification'',
       Pyplot (ForecastChart kenya_series [2023, 2024, 2025, 2026, 2027]
                 [Finite 76, Finite 77, Finite 78, Finite 79, Finite 80]),
       Markdown Forecast_Explanation,
       Header '' Model Summary'',
       Text ''ARIMA(1, 1, 1)'',
       Header ''Planning Insights'',
       Warning '' Kenya is projected to remain below universal access (80.0%). Accelerated investment is recommended.'',
       Markdown Suggested_Actions,
       Caption ''Kubeflow Electrification Project | Streamlit Dashboard | AI-assisted planning''],
      Completed)"
  by code_simp

lemma recommendation_not_Pyplot: "Pyplot f \<noteq> recommendation sel v"
  by (simp add: recommendation_def)

lemma forecasting_no_heat_map: "Pyplot (HeatMap p) \<notin> set (fst (forecasting arima sel series N))"
  by (auto simp: forecasting_def Let_def recommendation_not_Pyplot split: sum.splits)

lemma run_heat_map_of_whole_table:
  assumes "Pyplot (HeatMap p) \<in> set (fst (run globals pd arima (Some file) choice a N))"
  shows "\<exists>df. load_data pd file = Inr df \<and> pivot_table pd df a = Inr p"
  using assms forecasting_no_heat_map[of p arima]
  by (auto simp: run_def Let_def split: sum.splits if_splits)

subsection \<open>The script as it stands\<close>

text \<open>
  The script as it stands binds neither plotting name: it imports \<^verbatim>\<open>streamlit\<close>,
  \<^verbatim>\<open>pandas\<close>, \<^verbatim>\<open>numpy\<close> and \<^verbatim>\<open>ARIMA\<close> only, and its first plotting statement,
  \<^verbatim>\<open>fig, ax = plt.subplots()\<close> at line 79, raises a NameError. Every run that gets past
  the filtering ends there, after the header of the trend section. So a run of the
  script ends in one of three ways: with the upload warning, with an exception raised
  while loading or filtering, or with this NameError; it renders no figure, no error
  message and no recommendation, and it never reaches the end of the script.
\<close>

lemma run_NameError:
  assumes "load_data pd file = Inr df" and "''country'' \<in> set (columns df)"
    and "''year'' \<in> set (columns df)" and "''plt'' \<notin> set globals"
  shows "run globals pd arima (Some file) choice a N =
     ([Title ''Electrification Forecasting Dashboard'', Markdown Description,
       Header ''Historical Electrification Trends''], Raised (NameError ''plt''))"
  using assms by (simp add: run_def countries_def country_df_def Let_def)

lemma app_NameError:
  assumes "load_data pd file = Inr df" and "''country'' \<in> set (columns df)"
    and "''year'' \<in> set (columns df)"
  shows "app pd arima (Some file) choice a N =
     ([Title ''Electrification Forecasting Dashboard'', Markdown Description,
       Header ''Historical Electrification Trends''], Raised (NameError ''plt''))"
  unfolding app_def using assms by (rule run_NameError) (simp add: script_globals_def)

lemma app_outcomes:
  "app pd arima uploaded_file choice a N =
     ([Title ''Electrification Forecasting Dashboard'', Markdown Description,
       Warning ''Please upload a CSV file to continue.''], Stopped)
   \<or> (\<exists>e. app pd arima uploaded_file choice a N =
     ([Title ''Electrification Forecasting Dashboard'', Markdown Description], Raised e))
   \<or> app pd arima uploaded_file choice a N =
     ([Title ''Electrification Forecasting Dashboard'', Markdown Description,
       Header ''Historical Electrification Trends''], Raised (NameError ''plt''))"
  by (auto simp: app_def run_def script_globals_def Let_def split: option.splits sum.splits)

lemma dup_loaded: "load_data dup_pd () = Inr dup_df"
  by code_simp

text \<open>
  Claim C2. For a selected country whose series has fewer than six observations, the run
  is to halt with the explicit insufficient-data error, after the trend chart and the
  heat map and before the estimator is built or fitted, producing no forecast, model
  summary or recommendation. On the sample upload with Ghana selected (four
  observations) the script as it stands renders no chart and no insufficient-data
  error: the run ends with the NameError directly after the header of the trend
  section.
\<close>

theorem insufficient_data_run_raises_NameError:
  "load_data demo_pd () = Inr demo_df
   \<and> countries demo_df = Inr [''Ghana'', ''Kenya'']
   \<and> selectbox [''Ghana'', ''Kenya''] 0 = Some ''Ghana''
   \<and> length (filter (\<lambda>r. country r = ''Ghana'') (rows demo_df)) = 4
   \<and> app demo_pd demo_arima (Some ()) 0 Electricity_access 5 =
       ([Title ''Electrification Forecasting Dashboard'', Markdown Description,
         Header ''Historical Electrification Trends''], Raised (NameError ''plt''))"
proof -
  have 1: "countries demo_df = Inr [''Ghana'', ''Kenya'']" by code_simp
  have 2: "selectbox [''Ghana'', ''Kenya''] 0 = Some ''Ghana''" by code_simp
  have 3: "length (filter (\<lambda>r. country r = ''Ghana'') (rows demo_df)) = 4" by code_simp
  have 4: "app demo_pd demo_arima (Some ()) 0 Electricity_access 5 =
       ([Title ''Electrification Forecasting Dashboard'', Markdown Description,
         Header ''Historical Electrification Trends''], Raised (NameError ''plt''))"
    by (rule app_NameError[OF demo_loaded]) (simp_all add: demo_df_def)
  from demo_loaded 1 2 3 4 show ?thesis by blast
qed

text \<open>
  Claim C1. A forecast with horizon \<open>N\<close> between 3 and 15 is to have exactly \<open>N\<close>
  entries, for the years \<open>last_year + 1\<close> to \<open>last_year + N\<close> without a gap. The script
  as it stands produces no forecast: no run renders a forecast chart, whatever the
  upload, the estimator and the selections are, and no run reaches the end of the
  script. On the sample upload with Kenya selected (eight observations, the last in
  2022) and horizon 5, where the forecast is to cover 2023 to 2027, the run ends with
  the NameError directly after the header of the trend section.
\<close>

theorem app_renders_no_forecast:
  "Pyplot (ForecastChart s ys fc)
     \<notin> set (fst (app pd arima uploaded_file country_choice access_type forecast_years))
   \<and> snd (app pd arima uploaded_file country_choice access_type forecast_years) \<noteq> Completed
   \<and> selectbox [''Ghana'', ''Kenya''] 1 = Some ''Kenya''
   \<and> length (filter (\<lambda>r. country r = ''Kenya'') (rows demo_df)) = 8
   \<and> app demo_pd demo_arima (Some ()) 1 Electricity_access 5 =
       ([Title ''Electrification Forecasting Dashboard'', Markdown Description,
         Header ''Historical Electrification Trends''], Raised (NameError ''plt''))"
proof -
  have 1: "Pyplot (ForecastChart s ys fc)
     \<notin> set (fst (app pd arima uploaded_file country_choice access_type forecast_years))"
    using app_outcomes[of pd arima uploaded_file country_choice access_type forecast_years]
    by auto
  have 2: "snd (app pd arima uploaded_file country_choice access_type forecast_years)
             \<noteq> Completed"
    using app_outcomes[of pd arima uploaded_file country_choice access_type forecast_years]
    by auto
  have 3: "selectbox [''Ghana'', ''Kenya''] 1 = Some ''Kenya''" by code_simp
  have 4: "length (filter (\<lambda>r. country r = ''Kenya'') (rows demo_df)) = 8" by code_simp
  have 5: "app demo_pd demo_arima (Some ()) 1 Electricity_access 5 =
       ([Title ''Electrification Forecasting Dashboard'', Markdown Description,
         Header ''Historical Electrification Trends''], Raised (NameError ''plt''))"
    by (rule app_NameError[OF demo_loaded]) (simp_all add: demo_df_def)
  from 1 2 3 4 5 show ?thesis by blast
qed

text \<open>
  Claim C7. The heat-map matrix is to be the pivot of the whole loaded dataset, with
  empty cells for the (country, year) pairs the dataset does not have. The script as it
  stands builds no heat map: no run renders one, whatever the upload and the selections
  are. On the sample upload with Ghana selected and the urban metric, the run ends with
  the NameError directly after the header of the trend section, 25 lines before the
  pivot.
\<close>

theorem app_renders_no_heat_map:
  "Pyplot (HeatMap p)
     \<notin> set (fst (app pd arima uploaded_file country_choice access_type forecast_years))
   \<and> app demo_pd demo_arima (Some ()) 0 Urban_access 3 =
       ([Title ''Electrification Forecasting Dashboard'', Markdown Description,
         Header ''Historical Electrification Trends''], Raised (NameError ''plt''))"
proof -
  have 1: "Pyplot (HeatMap p)
     \<notin> set (fst (app pd arima uploaded_file country_choice access_type forecast_years))"
    using app_outcomes[of pd arima uploaded_file country_choice access_type forecast_years]
    by auto
  have 2: "app demo_pd demo_arima (Some ()) 0 Urban_access 3 =
       ([Title ''Electrification Forecasting Dashboard'', Markdown Description,
         Header ''Historical Electrification Trends''], Raised (NameError ''plt''))"
    by (rule app_NameError[OF demo_loaded]) (simp_all add: demo_df_def)
  from 1 2 show ?thesis by blast
qed

text \<open>
  Claim C9. For a dataset with two or more rows for the same (country, year) pair, the
  heat-map cell of the pair is to hold the mean of the pair's values, rather than the run
  failing or picking one row. On an upload in which Kenya has the two values 40 and 50
  for the year 2020, the script as it stands fails: the run ends with the NameError
  directly after the header of the trend section and no matrix is built.
\<close>

theorem app_duplicates_raises_NameError:
  "load_data dup_pd () = Inr dup_df
   \<and> map (metric Electricity_access)
        (filter (\<lambda>r. country r = ''Kenya'' \<and> year r = 2020) (rows dup_df)) = [40, 50]
   \<and> app dup_pd demo_arima (Some ()) 1 Electricity_access 5 =
       ([Title ''Electrification Forecasting Dashboard'', Markdown Description,
         Header ''Historical Electrification Trends''], Raised (NameError ''plt''))"
proof -
  have 1: "map (metric Electricity_access)
        (filter (\<lambda>r. country r = ''Kenya'' \<and> year r = 2020) (rows dup_df)) = [40, 50]"
    by code_simp
  have 2: "app dup_pd demo_arima (Some ()) 1 Electricity_access 5 =
       ([Title ''Electrification Forecasting Dashboard'', Markdown Description,
         Header ''Historical Electrification Trends''], Raised (NameError ''plt''))"
    by (rule app_NameError[OF dup_loaded]) (simp_all add: dup_df_def)
  from dup_loaded 1 2 show ?thesis by blast
qed

text \<open>
  Claim C3. The recommendation is to be a function of the last forecast value \<open>v\<close>: the
  success message if \<open>v \<ge> 90\<close>, and if \<open>v < 90\<close> the warning message that names the
  selected country and shows \<open>v\<close> with one decimal place. The script as it stands emits
  neither: no run puts a recommendation on the page, for any country and any value, and
  no run emits a success message at all. On the sample upload with Kenya selected, with
  the urban metric (where the stand-in estimator ends at 90) as with the rural one (where
  it ends at 70), the run ends with the NameError directly after the header of the trend
  section.
\<close>

theorem app_emits_no_recommendation:
  "recommendation selected_country future_value
     \<notin> set (fst (app pd arima uploaded_file country_choice access_type forecast_years))
   \<and> Success message
     \<notin> set (fst (app pd arima uploaded_file country_choice access_type forecast_years))
   \<and> app demo_pd demo_arima (Some ()) 1 Urban_access 5 =
       ([Title ''Electrification Forecasting Dashboard'', Markdown Description,
         Header ''Historical Electrification Trends''], Raised (NameError ''plt''))
   \<and> app demo_pd demo_arima (Some ()) 1 Rural_access 5 =
       ([Title ''Electrification Forecasting Dashboard'', Markdown Description,
         Header ''Historical Electrification Trends''], Raised (NameError ''plt''))"
proof -
  have w: "recommendation selected_country future_value
             \<noteq> Warning ''Please upload a CSV file to continue.''"
    by (simp add: recommendation_def)
  have t: "recommendation selected_country future_value \<noteq> Title x"
    and m: "recommendation selected_country future_value \<noteq> Markdown y"
    and h: "recommendation selected_country future_value \<noteq> Header z" for x y z
    by (simp_all add: recommendation_def)
  have 1: "recommendation selected_country future_value
     \<notin> set (fst (app pd arima uploaded_file country_choice access_type forecast_years))"
    using app_outcomes[of pd arima uploaded_file country_choice access_type forecast_years]
      w t m h
    by auto
  have 2: "Success message
     \<notin> set (fst (app pd arima uploaded_file country_choice access_type forecast_years))"
    using app_outcomes[of pd arima uploaded_file country_choice access_type forecast_years]
    by auto
  have 3: "app demo_pd demo_arima (Some ()) 1 Urban_access 5 =
       ([Title ''Electrification Forecasting Dashboard'', Markdown Description,
         Header ''Historical Electrification Trends''], Raised (NameError ''plt''))"
    by (rule app_NameError[OF demo_loaded]) (simp_all add: demo_df_def)
  have 4: "app demo_pd demo_arima (Some ()) 1 Rural_access 5 =
       ([Title ''Electrification Forecasting Dashboard'', Markdown Description,
         Header ''Historical Electrification Trends''], Raised (NameError ''plt''))"
    by (rule app_NameError[OF demo_loaded]) (simp_all add: demo_df_def)
  from 1 2 3 4 show ?thesis by blast
qed

text \<open>
  With both names bound, the two runs of the last claim end with the success message and
  with the warning for 70.0.
\<close>

lemma run_recommendation_demo:
  "Success '' Kenya is on track to approach universal electricity access.''
     \<in> set (fst (run (script_globals @ [''plt'', ''sns'']) demo_pd demo_arima (Some ()) 1
                    Urban_access 5))
   \<and> Warning '' Kenya is projected to remain below universal access (70.0%). Accelerated investment is recommended.''
     \<in> set (fst (run (script_globals @ [''plt'', ''sns'']) demo_pd demo_arima (Some ()) 1
                    Rural_access 5))"
  by code_simp

subsection \<open>The selected country has rows\<close>

text \<open>
  Claim C10, as amended. For every loaded dataset with a country column and at least
  one row, the selector has at least one option, and for whichever option is selected
  the filter \<^verbatim>\<open>df[df["country"] == selected_country]\<close> is not empty; hence, when the
  year column exists, \<open>country_df\<close> is not empty, and neither is the series of any
  metric column that exists.

  As stated, for every dataset with a country column, the claim fails on a table
  without rows: the selector then has no option and returns \<^verbatim>\<open>None\<close>, and the filter
  result, \<open>country_df\<close> and the series are all empty.
\<close>

theorem selected_country_has_rows:
  assumes "''country'' \<in> set (columns df)" and "rows df \<noteq> []"
  shows "\<exists>cs. countries df = Inr cs \<and> cs \<noteq> []
           \<and> (\<forall>choice<length cs. \<exists>c. selectbox cs choice = Some c
                 \<and> filter (\<lambda>r. Some (country r) = Some c) (rows df) \<noteq> []
                 \<and> (''year'' \<in> set (columns df) \<longrightarrow>
                      (\<exists>cdf. country_df df (Some c) = Inr cdf \<and> rows cdf \<noteq> []
                         \<and> (\<forall>a. label a \<in> set (columns df) \<longrightarrow>
                               (\<exists>s. series_of cdf a = Inr s \<and> s \<noteq> [])))))"
proof -
  define cs where "cs = sort (remdups (map country (rows df)))"
  have c: "countries df = Inr cs"
    using assms(1) by (simp add: countries_def cs_def)
  have set_cs: "set cs = country ` set (rows df)"
    by (simp add: cs_def)
  with assms(2) have ne: "cs \<noteq> []"
    by (metis empty_is_image set_empty)
  have sel: "\<exists>c. selectbox cs choice = Some c
                 \<and> filter (\<lambda>r. Some (country r) = Some c) (rows df) \<noteq> []
                 \<and> (''year'' \<in> set (columns df) \<longrightarrow>
                      (\<exists>cdf. country_df df (Some c) = Inr cdf \<and> rows cdf \<noteq> []
                         \<and> (\<forall>a. label a \<in> set (columns df) \<longrightarrow>
                               (\<exists>s. series_of cdf a = Inr s \<and> s \<noteq> []))))"
    if "choice < length cs" for choice
  proof -
    define c where "c = cs ! choice"
    from that have s: "selectbox cs choice = Some c"
      by (simp add: selectbox_def c_def)
    from that have "c \<in> set cs" by (simp add: c_def)
    with set_cs obtain r where r: "r \<in> set (rows df)" "country r = c" by auto
    then have f: "filter (\<lambda>r. Some (country r) = Some c) (rows df) \<noteq> []"
      by (auto simp: filter_empty_conv)
    have y: "\<exists>cdf. country_df df (Some c) = Inr cdf \<and> rows cdf \<noteq> []
                         \<and> (\<forall>a. label a \<in> set (columns df) \<longrightarrow>
                               (\<exists>s. series_of cdf a = Inr s \<and> s \<noteq> []))"
      if "''year'' \<in> set (columns df)"
    proof -
      define cdf where
        "cdf = df\<lparr>rows := sort_key year (filter (\<lambda>r. Some (country r) = Some c) (rows df))\<rparr>"
      have 1: "country_df df (Some c) = Inr cdf"
        using assms(1) that by (simp add: country_df_def cdf_def)
      have "length (rows cdf) = length (filter (\<lambda>r. Some (country r) = Some c) (rows df))"
        by (simp add: cdf_def)
      with f have 2: "rows cdf \<noteq> []"
        by auto
      have 3: "\<forall>a. label a \<in> set (columns df) \<longrightarrow> (\<exists>s. series_of cdf a = Inr s \<and> s \<noteq> [])"
        using that 2 by (simp add: series_of_def cdf_def)
      from 1 2 3 show ?thesis by blast
    qed
    from s f y show ?thesis by blast
  qed
  from c ne sel show ?thesis by blast
qed

theorem selected_country_has_rows_demo:
  "''country'' \<in> set (columns demo_df) \<and> rows demo_df \<noteq> []
   \<and> countries demo_df = Inr [''Ghana'', ''Kenya'']
   \<and> (1::nat) < length [''Ghana'', ''Kenya'']
   \<and> selectbox [''Ghana'', ''Kenya''] 1 = Some ''Kenya''
   \<and> length (filter (\<lambda>r. Some (country r) = Some ''Kenya'') (rows demo_df)) = 8
   \<and> ''year'' \<in> set (columns demo_df)
   \<and> (\<exists>cdf. country_df demo_df (Some ''Kenya'') = Inr cdf \<and> rows cdf \<noteq> []
          \<and> label Electricity_access \<in> set (columns demo_df)
          \<and> series_of cdf Electricity_access = Inr kenya_series)"
proof -
  have h1: "''country'' \<in> set (columns demo_df)" by code_simp
  have h2: "rows demo_df \<noteq> []" by code_simp
  have e: "countries demo_df = Inr [''Ghana'', ''Kenya'']" by code_simp
  have i: "(1::nat) < length [''Ghana'', ''Kenya'']" by simp
  have s: "selectbox [''Ghana'', ''Kenya''] 1 = Some ''Kenya''" by code_simp
  have n: "length (filter (\<lambda>r. Some (country r) = Some ''Kenya'') (rows demo_df)) = 8"
    by code_simp
  have y: "''year'' \<in> set (columns demo_df)" by code_simp
  have a: "label Electricity_access \<in> set (columns demo_df)" by code_simp
  have k: "(case country_df demo_df (Some ''Kenya'') of
         Inl e \<Rightarrow> Inl e
       | Inr cdf \<Rightarrow> series_of cdf Electricity_access) = Inr kenya_series"
    by code_simp
  from selected_country_has_rows[OF h1 h2] e
  have "\<forall>choice<length [''Ghana'', ''Kenya'']. \<exists>c.
          selectbox [''Ghana'', ''Kenya''] choice = Some c
          \<and> (''year'' \<in> set (columns demo_df) \<longrightarrow>
                (\<exists>cdf. country_df demo_df (Some c) = Inr cdf \<and> rows cdf \<noteq> []))"
    by auto
  with i s y obtain cdf where
    cdf: "country_df demo_df (Some ''Kenya'') = Inr cdf" "rows cdf \<noteq> []"
    by (metis option.inject)
  with k have "series_of cdf Electricity_access = Inr kenya_series"
    by simp
  with h1 h2 e i s n y a cdf show ?thesis by blast
qed

theorem header_only_country_df_empty:
  "''country'' \<in> set (columns header_only)
   \<and> countries header_only = Inr []
   \<and> selectbox ([] :: string list) 0 = None
   \<and> country_df header_only None = Inr header_only
   \<and> rows header_only = []
   \<and> series_of header_only Electricity_access = Inr []"
  by (simp add: header_only_def countries_def selectbox_def country_df_def series_of_def)


end
